theory Spec2Isabelle
  imports Complex_Main
begin

section \<open>Data model of \<open>lab_5.py\<close> (class \<open>HarmonicVisualizer\<close>)\<close>

text \<open>
  Python floats are modelled by \<^typ>\<open>real\<close>: the staleness logic only compares values
  with \<open>!=\<close>, and the numeric formulas are read as exact real arithmetic (no rounding,
  no NaN). NumPy arrays are lists of reals.
\<close>

text \<open>
  \<open>new_params\<close> is the dictionary built at the start of \<open>_update\<close> (six numeric keys);
  \<open>self.params\<close> has the same six keys and \<open>show_noise\<close>.
\<close>

record new_params =
  amplitude :: real
  frequency :: real
  phase :: real
  noise_mean :: real
  noise_covariance :: real
  cutoff_frequency :: real

record param_dict = new_params +
  show_noise :: bool

text \<open>A matplotlib \<open>Slider\<close>: its current value, initial value and range.\<close>

record slider =
  val :: real
  valinit :: real
  valmin :: real
  valmax :: real

text \<open>A matplotlib \<open>Line2D\<close>: the plotted y data and the visibility flag.\<close>

record line2d =
  ydata :: "real list"
  visible :: bool

text \<open>
  The object \<open>self\<close>. \<open>rng_draws\<close> is the position of NumPy's process-global random
  generator, counted in calls of \<open>np.random.normal\<close>; \<open>draw_requests\<close> counts the
  program's own calls of \<open>fig.canvas.draw_idle()\<close>.
\<close>

record visualizer =
  params :: param_dict
  harmonic :: "real list"
  noise :: "real list"
  slider_amp :: slider
  slider_freq :: slider
  slider_phase :: slider
  slider_noise_mean :: slider
  slider_noise_cov :: slider
  slider_cutoff :: slider
  line_noisy :: line2d
  line_clean :: line2d
  line_filtered :: line2d
  rng_draws :: nat
  draw_requests :: nat

text \<open>The exception SciPy raises for an invalid filter design or input.\<close>

datatype error = ValueError

text \<open>
  The library functions the program calls, as parameters of the model:
  \<^item> \<open>normal k mean sd n\<close>: the \<open>n\<close> samples \<open>np.random.normal(mean, sd, n)\<close> returns when
    it is call number \<open>k\<close> on the global generator;
  \<^item> \<open>butter N Wn\<close>: \<open>scipy.signal.butter(N, Wn, btype='low', analog=False)\<close>, the
    coefficient pair \<open>(b, a)\<close> or the exception;
  \<^item> \<open>filtfilt b a x\<close>: \<open>scipy.signal.filtfilt(b, a, x)\<close>.
\<close>

record lib =
  normal :: "nat \<Rightarrow> real \<Rightarrow> real \<Rightarrow> nat \<Rightarrow> real list"
  butter :: "nat \<Rightarrow> real \<Rightarrow> error + (real list \<times> real list)"
  filtfilt :: "real list \<Rightarrow> real list \<Rightarrow> real list \<Rightarrow> error + real list"

section \<open>The time base and the harmonic\<close>

text \<open>\<open>np.linspace(start, stop, num)\<close> with the end point included.\<close>

definition linspace :: "real \<Rightarrow> real \<Rightarrow> nat \<Rightarrow> real list" where
  "linspace start stop num =
     map (\<lambda>i. start + real i * ((stop - start) / real (num - 1))) [0..<num]"

text \<open>\<open>self.t = np.linspace(0, 10, 1000)\<close>, set once in \<open>__init__\<close>.\<close>

definition t :: "real list" where
  "t = linspace 0 10 1000"

definition initial_params :: param_dict where
  "initial_params =
     \<lparr>amplitude = 1.0, frequency = 0.3, phase = 0.0, noise_mean = 0.0,
      noise_covariance = 0.15, cutoff_frequency = 2.0, show_noise = True\<rparr>"

text \<open>
  \<open>_calculate_harmonic\<close> reads \<open>self.params\<close> and \<open>self.t\<close>; the model passes the
  dictionary it reads.
\<close>

definition calculate_harmonic :: "param_dict \<Rightarrow> real list" where
  "calculate_harmonic p =
     map (\<lambda>x. amplitude p * sin (2 * pi * frequency p * x + phase p)) t"

text \<open>
  \<open>_generate_noise\<close> reads \<open>self.params\<close> and draws \<open>len(self.t)\<close> samples; \<open>k\<close> is the
  generator position, which the caller advances by one. (\<open>np.sqrt\<close> of a negative
  variance is NaN, which \<^typ>\<open>real\<close> does not have; the sliders keep the variance in
  \<open>[0, 0.5]\<close>.)
\<close>

definition generate_noise :: "lib \<Rightarrow> param_dict \<Rightarrow> nat \<Rightarrow> real list" where
  "generate_noise L p k = normal L k (noise_mean p) (sqrt (noise_covariance p)) (length t)"

section \<open>The callbacks\<close>

text \<open>The first six lines of \<open>_update\<close>: the dictionary of the sliders' current values.\<close>

definition read_sliders :: "visualizer \<Rightarrow> new_params" where
  "read_sliders self =
     \<lparr>amplitude = val (slider_amp self), frequency = val (slider_freq self),
      phase = val (slider_phase self), noise_mean = val (slider_noise_mean self),
      noise_covariance = val (slider_noise_cov self),
      cutoff_frequency = val (slider_cutoff self)\<rparr>"

text \<open>\<open>d.update(n)\<close>: the six keys of \<open>n\<close> overwrite those of \<open>d\<close>; \<open>show_noise\<close> stays.\<close>

definition dict_update :: "param_dict \<Rightarrow> new_params \<Rightarrow> param_dict" where
  "dict_update d n =
     d\<lparr>amplitude := amplitude n, frequency := frequency n, phase := phase n,
       noise_mean := noise_mean n, noise_covariance := noise_covariance n,
       cutoff_frequency := cutoff_frequency n\<rparr>"

text \<open>
  \<open>_update_filter\<close>. An exception of \<open>butter\<close> or \<open>filtfilt\<close> leaves the method before
  \<open>line_filtered.set_ydata\<close>, so the error result carries no new state.
\<close>

definition update_filter :: "lib \<Rightarrow> visualizer \<Rightarrow> real list \<Rightarrow> error + visualizer" where
  "update_filter L self noisy_signal =
     (let fs = 1 / (t ! 1 - t ! 0);
          cutoff = cutoff_frequency (params self);
          nyq = 0.5 * fs;
          normal_cutoff = cutoff / nyq
      in case butter L 5 normal_cutoff of
           Inl e \<Rightarrow> Inl e
         | Inr (b, a) \<Rightarrow>
             (case filtfilt L b a noisy_signal of
                Inl e \<Rightarrow> Inl e
              | Inr filtered_signal \<Rightarrow>
                  Inr (self\<lparr>line_filtered := (line_filtered self)\<lparr>ydata := filtered_signal\<rparr>\<rparr>)))"

text \<open>
  The first \<open>if\<close> of \<open>_update\<close> (lines 89 to 93): when amplitude, frequency or phase
  of \<open>new_params\<close> differ from \<open>self.params\<close>, the whole dictionary is overwritten and
  the harmonic recomputed.
\<close>

definition refresh_harmonic :: "new_params \<Rightarrow> visualizer \<Rightarrow> visualizer" where
  "refresh_harmonic new self =
     (if amplitude new \<noteq> amplitude (params self) \<or>
         frequency new \<noteq> frequency (params self) \<or>
         phase new \<noteq> phase (params self)
      then (let p = dict_update (params self) new
            in self\<lparr>params := p, harmonic := calculate_harmonic p\<rparr>)
      else self)"

text \<open>
  The second \<open>if\<close> of \<open>_update\<close> (lines 95 to 98): it compares with \<open>self.params\<close> as the
  first \<open>if\<close> left it.
\<close>

definition refresh_noise :: "lib \<Rightarrow> new_params \<Rightarrow> visualizer \<Rightarrow> visualizer" where
  "refresh_noise L new self =
     (if noise_mean new \<noteq> noise_mean (params self) \<or>
         noise_covariance new \<noteq> noise_covariance (params self)
      then (let p = dict_update (params self) new
            in self\<lparr>params := p, noise := generate_noise L p (rng_draws self),
                    rng_draws := rng_draws self + 1\<rparr>)
      else self)"

text \<open>
  \<open>_update\<close>. The result is the exception that left the method, if any, and the object
  as the method left it: Python keeps every assignment made before an exception.
  \<open>harmonic + noise\<close> adds arrays of equal length \<open>len(self.t)\<close> element by element.
\<close>

definition update :: "lib \<Rightarrow> visualizer \<Rightarrow> error option \<times> visualizer" where
  "update L self =
     (let new = read_sliders self;
          s1 = refresh_harmonic new self;
          s2 = refresh_noise L new s1;
          s3 = s2\<lparr>params := dict_update (params s2) new\<rparr>;
          noisy_signal = map2 (+) (harmonic s3) (noise s3);
          s4 = s3\<lparr>line_noisy := (line_noisy s3)\<lparr>ydata := noisy_signal\<rparr>\<rparr>;
          s5 = s4\<lparr>line_clean := (line_clean s4)\<lparr>ydata := harmonic s4\<rparr>\<rparr>
      in case update_filter L s5 noisy_signal of
           Inl e \<Rightarrow> (Some e, s5)
         | Inr s6 \<Rightarrow> (None, s6\<lparr>draw_requests := draw_requests s6 + 1\<rparr>))"

text \<open>\<open>_toggle_noise\<close>.\<close>

definition toggle_noise :: "visualizer \<Rightarrow> visualizer" where
  "toggle_noise self =
     (let s1 = self\<lparr>params := (params self)\<lparr>show_noise := \<not> show_noise (params self)\<rparr>\<rparr>;
          s2 = s1\<lparr>line_noisy := (line_noisy s1)\<lparr>visible := show_noise (params s1)\<rparr>\<rparr>;
          s3 = s2\<lparr>line_clean := (line_clean s2)\<lparr>visible := \<not> show_noise (params s2)\<rparr>\<rparr>
      in s3\<lparr>draw_requests := draw_requests s3 + 1\<rparr>)"

subsection \<open>The sliders' side of the callbacks\<close>

text \<open>The six sliders, in the order \<open>_reset\<close> names them.\<close>

datatype slider_name = Amp | Freq | Phase | NoiseMean | NoiseCov | Cutoff

fun get_slider :: "slider_name \<Rightarrow> visualizer \<Rightarrow> slider" where
  "get_slider Amp self = slider_amp self"
| "get_slider Freq self = slider_freq self"
| "get_slider Phase self = slider_phase self"
| "get_slider NoiseMean self = slider_noise_mean self"
| "get_slider NoiseCov self = slider_noise_cov self"
| "get_slider Cutoff self = slider_cutoff self"

fun put_slider :: "slider_name \<Rightarrow> slider \<Rightarrow> visualizer \<Rightarrow> visualizer" where
  "put_slider Amp s self = self\<lparr>slider_amp := s\<rparr>"
| "put_slider Freq s self = self\<lparr>slider_freq := s\<rparr>"
| "put_slider Phase s self = self\<lparr>slider_phase := s\<rparr>"
| "put_slider NoiseMean s self = self\<lparr>slider_noise_mean := s\<rparr>"
| "put_slider NoiseCov s self = self\<lparr>slider_noise_cov := s\<rparr>"
| "put_slider Cutoff s self = self\<lparr>slider_cutoff := s\<rparr>"

text \<open>
  \<open>Slider.set_val(v)\<close> of matplotlib stores \<open>v\<close> and then runs the callbacks registered
  with \<open>on_changed\<close>; every slider of this program registers \<open>_update\<close>.
\<close>

definition set_val :: "lib \<Rightarrow> slider_name \<Rightarrow> real \<Rightarrow> visualizer \<Rightarrow> error option \<times> visualizer" where
  "set_val L f v self = update L (put_slider f ((get_slider f self)\<lparr>val := v\<rparr>) self)"

text \<open>
  \<open>Slider.reset()\<close> of matplotlib: \<open>if self.val != self.valinit: self.set_val(self.valinit)\<close>.
\<close>

definition slider_reset :: "lib \<Rightarrow> slider_name \<Rightarrow> visualizer \<Rightarrow> error option \<times> visualizer" where
  "slider_reset L f self =
     (if val (get_slider f self) \<noteq> valinit (get_slider f self)
      then set_val L f (valinit (get_slider f self)) self
      else (None, self))"

text \<open>
  Statements in sequence. When a callback raises, matplotlib's callback registry raises
  it again where no GUI event loop is running, and prints it and goes on where one is.
  The model takes the first reading: the exception leaves \<open>_reset\<close>, and the later
  sliders are not reset. The two readings agree on every run in which no callback
  raises.
\<close>

fun resets :: "lib \<Rightarrow> slider_name list \<Rightarrow> visualizer \<Rightarrow> error option \<times> visualizer" where
  "resets L [] self = (None, self)"
| "resets L (f # fs) self =
     (case slider_reset L f self of
        (Some e, self') \<Rightarrow> (Some e, self')
      | (None, self') \<Rightarrow> resets L fs self')"

text \<open>\<open>_reset\<close>.\<close>

definition reset :: "lib \<Rightarrow> visualizer \<Rightarrow> error option \<times> visualizer" where
  "reset L self = resets L [Amp, Freq, Phase, NoiseMean, NoiseCov, Cutoff] self"

subsection \<open>Construction\<close>

text \<open>
  \<open>Slider(ax, label, valmin, valmax, valinit=v)\<close>: matplotlib clips \<open>v\<close> to the range and
  stores it as both \<open>val\<close> and \<open>valinit\<close>.
\<close>

definition Slider :: "real \<Rightarrow> real \<Rightarrow> real \<Rightarrow> slider" where
  "Slider lo hi v =
     (let c = (if v \<le> lo then lo else if hi \<le> v then hi else v)
      in \<lparr>val = c, valinit = c, valmin = lo, valmax = hi\<rparr>)"

text \<open>
  The object \<open>__init__\<close> has built when it reaches its last line \<open>self._update(None)\<close>:
  the parameters, one noise draw, the three lines of \<open>_setup_plot\<close> and the six sliders of
  \<open>_setup_widgets\<close>.
\<close>

definition constructed :: "lib \<Rightarrow> visualizer" where
  "constructed L =
     (let p = initial_params;
          h = calculate_harmonic p;
          n = generate_noise L p 0
      in \<lparr>params = p, harmonic = h, noise = n,
          slider_amp = Slider 0.1 2.0 (amplitude p),
          slider_freq = Slider 0.1 2.0 (frequency p),
          slider_phase = Slider 0 (2 * pi) (phase p),
          slider_noise_mean = Slider (- 0.5) 0.5 (noise_mean p),
          slider_noise_cov = Slider 0 0.5 (noise_covariance p),
          slider_cutoff = Slider 0.1 10.0 (cutoff_frequency p),
          line_noisy = \<lparr>ydata = map2 (+) h n, visible = True\<rparr>,
          line_clean = \<lparr>ydata = h, visible = False\<rparr>,
          line_filtered = \<lparr>ydata = h, visible = True\<rparr>,
          rng_draws = 1, draw_requests = 0\<rparr>)"

text \<open>\<open>__init__\<close>: an exception of the first \<open>_update\<close> leaves the constructor.\<close>

definition init :: "lib \<Rightarrow> error + visualizer" where
  "init L = (case update L (constructed L) of
               (Some e, self) \<Rightarrow> Inl e
             | (None, self) \<Rightarrow> Inr self)"

text \<open>
  The states the running program can be in: after construction, after a slider was set
  to any value, after the check box was clicked, after the reset button was clicked.
  A callback that raised leaves the object as it was at the exception, and the event
  loop goes on. (When \<open>_reset\<close> goes on after a callback that raised, what it leaves is
  what a sequence of \<open>set_val\<close> calls leaves, which the rule \<open>changed\<close> covers.)
\<close>

inductive reachable :: "lib \<Rightarrow> visualizer \<Rightarrow> bool" for L :: lib where
  started: "init L = Inr self \<Longrightarrow> reachable L self"
| changed: "reachable L self \<Longrightarrow> reachable L (snd (set_val L f v self))"
| toggled: "reachable L self \<Longrightarrow> reachable L (toggle_noise self)"
| was_reset: "reachable L self \<Longrightarrow> reachable L (snd (reset L self))"

section \<open>Vocabulary of the statements\<close>

text \<open>
  The Nyquist frequency \<open>_update_filter\<close> computes in its lines 109 and 111, and the value
  it computes before \<open>set_ydata\<close> (lines 109 to 114) as a function of the cut-off and the
  signal.
\<close>

definition nyquist :: real where
  "nyquist = 0.5 * (1 / (t ! 1 - t ! 0))"

definition lowpass :: "lib \<Rightarrow> real \<Rightarrow> real list \<Rightarrow> error + real list" where
  "lowpass L cutoff x =
     (case butter L 5 (cutoff / nyquist) of
        Inl e \<Rightarrow> Inl e
      | Inr (b, a) \<Rightarrow> filtfilt L b a x)"

text \<open>
  The two staleness tests as comparisons of the sliders with \<open>self.params\<close> as it is when
  \<open>_update\<close> is entered.
\<close>

definition harmonic_stale :: "visualizer \<Rightarrow> bool" where
  "harmonic_stale self \<longleftrightarrow>
     val (slider_amp self) \<noteq> amplitude (params self) \<or>
     val (slider_freq self) \<noteq> frequency (params self) \<or>
     val (slider_phase self) \<noteq> phase (params self)"

definition noise_stale :: "visualizer \<Rightarrow> bool" where
  "noise_stale self \<longleftrightarrow>
     val (slider_noise_mean self) \<noteq> noise_mean (params self) \<or>
     val (slider_noise_cov self) \<noteq> noise_covariance (params self)"

text \<open>The dictionary key each slider feeds (lines 81 to 86).\<close>

fun param_of :: "slider_name \<Rightarrow> param_dict \<Rightarrow> real" where
  "param_of Amp p = amplitude p"
| "param_of Freq p = frequency p"
| "param_of Phase p = phase p"
| "param_of NoiseMean p = noise_mean p"
| "param_of NoiseCov p = noise_covariance p"
| "param_of Cutoff p = cutoff_frequency p"

text \<open>
  Three properties of the object: the harmonic is the one of the current parameters, the
  six numeric parameters are the sliders' values, and every slider's initial value is
  the default of its parameter.
\<close>

definition harmonic_fresh :: "visualizer \<Rightarrow> bool" where
  "harmonic_fresh self \<longleftrightarrow> harmonic self = calculate_harmonic (params self)"

definition synced :: "visualizer \<Rightarrow> bool" where
  "synced self \<longleftrightarrow> dict_update (params self) (read_sliders self) = params self"

definition valinit_defaults :: "visualizer \<Rightarrow> bool" where
  "valinit_defaults self \<longleftrightarrow>
     valinit (slider_amp self) = amplitude initial_params \<and>
     valinit (slider_freq self) = frequency initial_params \<and>
     valinit (slider_phase self) = phase initial_params \<and>
     valinit (slider_noise_mean self) = noise_mean initial_params \<and>
     valinit (slider_noise_cov self) = noise_covariance initial_params \<and>
     valinit (slider_cutoff self) = cutoff_frequency initial_params"

definition invariant :: "visualizer \<Rightarrow> bool" where
  "invariant self \<longleftrightarrow> harmonic_fresh self \<and> synced self \<and> valinit_defaults self"

text \<open>
  The object as \<open>_update\<close> finds it when slider \<open>f\<close> was set to \<open>v\<close>: the slider holds
  the new value, \<open>self.params\<close> is still the snapshot of the call before.
\<close>

definition entered :: "slider_name \<Rightarrow> real \<Rightarrow> visualizer \<Rightarrow> visualizer" where
  "entered f v self = put_slider f ((get_slider f self)\<lparr>val := v\<rparr>) self"

text \<open>
  What SciPy documents for \<open>butter\<close> with \<open>analog=False\<close>: a critical frequency outside
  \<open>0 < Wn < 1\<close> raises \<open>ValueError\<close>, one inside yields coefficients.
\<close>

definition butter_rejects :: "lib \<Rightarrow> bool" where
  "butter_rejects L \<longleftrightarrow> (\<forall>N Wn. Wn \<le> 0 \<or> 1 \<le> Wn \<longrightarrow> butter L N Wn = Inl ValueError)"

definition butter_accepts :: "lib \<Rightarrow> bool" where
  "butter_accepts L \<longleftrightarrow> (\<forall>N Wn. 0 < Wn \<and> Wn < 1 \<longrightarrow> (\<exists>b a. butter L N Wn = Inr (b, a)))"

section \<open>A concrete library and concrete objects\<close>

text \<open>
  An instance of the library for running the model on concrete inputs: a deterministic
  sequence with the requested mean and spread, a \<open>butter\<close> with SciPy's domain check,
  and a \<open>filtfilt\<close> that returns its input.
\<close>

definition sample_lib :: lib where
  "sample_lib =
     \<lparr>normal = (\<lambda>k mean sd n. map (\<lambda>i. mean + sd * (if even (i + k) then 1 else - 1)) [0..<n]),
      butter = (\<lambda>N Wn. if Wn \<le> 0 \<or> 1 \<le> Wn then Inl ValueError else Inr ([Wn], [1])),
      filtfilt = (\<lambda>b a x. Inr x)\<rparr>"

text \<open>The object after \<open>__init__\<close> with this library.\<close>

definition startup :: visualizer where
  "startup = snd (update sample_lib (constructed sample_lib))"

text \<open>After the cut-off slider was set to 50, above the Nyquist frequency 49.95.\<close>

definition cutoff_50 :: visualizer where
  "cutoff_50 = snd (set_val sample_lib Cutoff 50 startup)"

text \<open>After the amplitude slider was set to 2.\<close>

definition amp_2 :: visualizer where
  "amp_2 = snd (set_val sample_lib Amp 2 startup)"

section \<open>Basic facts\<close>

lemma length_t: "length t = 1000"
  by (simp add: t_def linspace_def)

lemma nth_t: "i < 1000 \<Longrightarrow> t ! i = real i * (10 / 999)"
  by (simp add: t_def linspace_def)

subsection \<open>The filter step and the two staleness blocks\<close>

lemma nyquist_value: "nyquist = 999 / 20"
  by (simp add: nyquist_def nth_t)

lemma dict_update_twice [simp]: "dict_update (dict_update d n) n = dict_update d n"
  by (simp add: dict_update_def)

lemma refresh_harmonic_params [simp]:
  "dict_update (params (refresh_harmonic new self)) new = dict_update (params self) new"
  by (simp add: refresh_harmonic_def Let_def)

lemma refresh_noise_params [simp]:
  "dict_update (params (refresh_noise L new self)) new = dict_update (params self) new"
  by (simp add: refresh_noise_def Let_def)

lemma refresh_harmonic_frame [simp]:
  "noise (refresh_harmonic new self) = noise self"
  "rng_draws (refresh_harmonic new self) = rng_draws self"
  "draw_requests (refresh_harmonic new self) = draw_requests self"
  "line_noisy (refresh_harmonic new self) = line_noisy self"
  "line_clean (refresh_harmonic new self) = line_clean self"
  "line_filtered (refresh_harmonic new self) = line_filtered self"
  "slider_amp (refresh_harmonic new self) = slider_amp self"
  "slider_freq (refresh_harmonic new self) = slider_freq self"
  "slider_phase (refresh_harmonic new self) = slider_phase self"
  "slider_noise_mean (refresh_harmonic new self) = slider_noise_mean self"
  "slider_noise_cov (refresh_harmonic new self) = slider_noise_cov self"
  "slider_cutoff (refresh_harmonic new self) = slider_cutoff self"
  by (simp_all add: refresh_harmonic_def Let_def)

lemma refresh_noise_frame [simp]:
  "harmonic (refresh_noise L new self) = harmonic self"
  "draw_requests (refresh_noise L new self) = draw_requests self"
  "line_noisy (refresh_noise L new self) = line_noisy self"
  "line_clean (refresh_noise L new self) = line_clean self"
  "line_filtered (refresh_noise L new self) = line_filtered self"
  "slider_amp (refresh_noise L new self) = slider_amp self"
  "slider_freq (refresh_noise L new self) = slider_freq self"
  "slider_phase (refresh_noise L new self) = slider_phase self"
  "slider_noise_mean (refresh_noise L new self) = slider_noise_mean self"
  "slider_noise_cov (refresh_noise L new self) = slider_noise_cov self"
  "slider_cutoff (refresh_noise L new self) = slider_cutoff self"
  by (simp_all add: refresh_noise_def Let_def)

lemma case_sum_nested:
  "(case B of Inl e \<Rightarrow> Inl e
    | Inr (b, a) \<Rightarrow> (case F b a of Inl e \<Rightarrow> Inl e | Inr y \<Rightarrow> Inr (G y))) =
   (case (case B of Inl e \<Rightarrow> Inl e | Inr (b, a) \<Rightarrow> F b a) of
      Inl e \<Rightarrow> Inl e | Inr y \<Rightarrow> Inr (G y))"
  by (simp split: sum.splits prod.splits)

lemma update_filter_lowpass:
  "update_filter L self x =
     (case lowpass L (cutoff_frequency (params self)) x of
        Inl e \<Rightarrow> Inl e
      | Inr y \<Rightarrow> Inr (self\<lparr>line_filtered := (line_filtered self)\<lparr>ydata := y\<rparr>\<rparr>))"
  unfolding update_filter_def lowpass_def nyquist_def Let_def
  by (rule case_sum_nested)

lemma update_filter_Inr:
  "update_filter L self x = Inr s \<Longrightarrow>
     \<exists>y. s = self\<lparr>line_filtered := (line_filtered self)\<lparr>ydata := y\<rparr>\<rparr>"
  by (auto simp add: update_filter_lowpass split: sum.splits)

subsection \<open>What one call of \<open>_update\<close> leaves\<close>

lemma update_params:
  "params (snd (update L self)) = dict_update (params self) (read_sliders self)"
  by (auto simp add: update_def Let_def split: sum.splits dest!: update_filter_Inr)

lemma update_sliders:
  "slider_amp (snd (update L self)) = slider_amp self"
  "slider_freq (snd (update L self)) = slider_freq self"
  "slider_phase (snd (update L self)) = slider_phase self"
  "slider_noise_mean (snd (update L self)) = slider_noise_mean self"
  "slider_noise_cov (snd (update L self)) = slider_noise_cov self"
  "slider_cutoff (snd (update L self)) = slider_cutoff self"
  by (auto simp add: update_def Let_def split: sum.splits dest!: update_filter_Inr)

lemma refresh_harmonic_harmonic:
  "harmonic (refresh_harmonic (read_sliders self) self) =
     (if harmonic_stale self
      then calculate_harmonic (dict_update (params self) (read_sliders self))
      else harmonic self)"
  by (simp add: refresh_harmonic_def harmonic_stale_def read_sliders_def Let_def)

lemma update_harmonic:
  "harmonic (snd (update L self)) =
     (if harmonic_stale self
      then calculate_harmonic (dict_update (params self) (read_sliders self))
      else harmonic self)"
  by (auto simp add: update_def Let_def refresh_harmonic_harmonic split: sum.splits dest!: update_filter_Inr)

lemma refresh_noise_noise:
  "noise (refresh_noise L (read_sliders self) (refresh_harmonic (read_sliders self) self)) =
     (if \<not> harmonic_stale self \<and> noise_stale self
      then generate_noise L (dict_update (params self) (read_sliders self)) (rng_draws self)
      else noise self)"
  by (auto simp add: refresh_noise_def refresh_harmonic_def harmonic_stale_def noise_stale_def
      read_sliders_def dict_update_def Let_def)

lemma refresh_noise_rng_draws:
  "rng_draws (refresh_noise L (read_sliders self) (refresh_harmonic (read_sliders self) self)) =
     (if \<not> harmonic_stale self \<and> noise_stale self
      then rng_draws self + 1 else rng_draws self)"
  by (auto simp add: refresh_noise_def refresh_harmonic_def harmonic_stale_def noise_stale_def
      read_sliders_def dict_update_def Let_def)

lemma update_noise:
  "noise (snd (update L self)) =
     (if \<not> harmonic_stale self \<and> noise_stale self
      then generate_noise L (dict_update (params self) (read_sliders self)) (rng_draws self)
      else noise self)"
  by (auto simp add: update_def Let_def refresh_noise_noise split: sum.splits dest!: update_filter_Inr)

lemma update_rng_draws:
  "rng_draws (snd (update L self)) =
     (if \<not> harmonic_stale self \<and> noise_stale self
      then rng_draws self + 1 else rng_draws self)"
  by (auto simp add: update_def Let_def refresh_noise_rng_draws split: sum.splits dest!: update_filter_Inr)

lemma dict_update_fields [simp]:
  "amplitude (dict_update d n) = amplitude n"
  "frequency (dict_update d n) = frequency n"
  "phase (dict_update d n) = phase n"
  "noise_mean (dict_update d n) = noise_mean n"
  "noise_covariance (dict_update d n) = noise_covariance n"
  "cutoff_frequency (dict_update d n) = cutoff_frequency n"
  "show_noise (dict_update d n) = show_noise d"
  by (simp_all add: dict_update_def)

lemma read_sliders_fields [simp]:
  "amplitude (read_sliders self) = val (slider_amp self)"
  "frequency (read_sliders self) = val (slider_freq self)"
  "phase (read_sliders self) = val (slider_phase self)"
  "noise_mean (read_sliders self) = val (slider_noise_mean self)"
  "noise_covariance (read_sliders self) = val (slider_noise_cov self)"
  "cutoff_frequency (read_sliders self) = val (slider_cutoff self)"
  by (simp_all add: read_sliders_def)

lemma update_line_noisy:
  "line_noisy (snd (update L self)) =
     (line_noisy self)\<lparr>ydata := map2 (+) (harmonic (snd (update L self))) (noise (snd (update L self)))\<rparr>"
  by (auto simp add: update_def Let_def split: sum.splits dest!: update_filter_Inr)

lemma update_line_clean:
  "line_clean (snd (update L self)) = (line_clean self)\<lparr>ydata := harmonic (snd (update L self))\<rparr>"
  by (auto simp add: update_def Let_def split: sum.splits dest!: update_filter_Inr)

lemma update_result:
  "update L self =
     (case lowpass L (val (slider_cutoff self))
             (map2 (+) (harmonic (snd (update L self))) (noise (snd (update L self)))) of
        Inl e \<Rightarrow> (Some e, snd (update L self))
      | Inr y \<Rightarrow> (None, snd (update L self)))"
  by (auto simp add: update_def Let_def update_filter_lowpass split: sum.splits)

lemma update_line_filtered:
  "line_filtered (snd (update L self)) =
     (case lowpass L (val (slider_cutoff self))
             (map2 (+) (harmonic (snd (update L self))) (noise (snd (update L self)))) of
        Inl e \<Rightarrow> line_filtered self
      | Inr y \<Rightarrow> (line_filtered self)\<lparr>ydata := y\<rparr>)"
  by (auto simp add: update_def Let_def update_filter_lowpass split: sum.splits)

lemma update_draw_requests:
  "draw_requests (snd (update L self)) =
     (case fst (update L self) of
        Some e \<Rightarrow> draw_requests self
      | None \<Rightarrow> draw_requests self + 1)"
  by (auto simp add: update_def Let_def update_filter_lowpass split: sum.splits)

subsection \<open>The invariant of the reachable objects\<close>

lemma calculate_harmonic_cong:
  "amplitude p = amplitude q \<Longrightarrow> frequency p = frequency q \<Longrightarrow> phase p = phase q \<Longrightarrow>
     calculate_harmonic p = calculate_harmonic q"
  by (simp add: calculate_harmonic_def)

lemma synced_fields:
  "synced self \<longleftrightarrow>
     amplitude (params self) = val (slider_amp self) \<and>
     frequency (params self) = val (slider_freq self) \<and>
     phase (params self) = val (slider_phase self) \<and>
     noise_mean (params self) = val (slider_noise_mean self) \<and>
     noise_covariance (params self) = val (slider_noise_cov self) \<and>
     cutoff_frequency (params self) = val (slider_cutoff self)"
proof
  assume "synced self"
  then have eq: "params self = dict_update (params self) (read_sliders self)"
    by (simp add: synced_def)
  show "amplitude (params self) = val (slider_amp self) \<and>
     frequency (params self) = val (slider_freq self) \<and>
     phase (params self) = val (slider_phase self) \<and>
     noise_mean (params self) = val (slider_noise_mean self) \<and>
     noise_covariance (params self) = val (slider_noise_cov self) \<and>
     cutoff_frequency (params self) = val (slider_cutoff self)"
    by (subst eq, simp)+
next
  assume "amplitude (params self) = val (slider_amp self) \<and>
     frequency (params self) = val (slider_freq self) \<and>
     phase (params self) = val (slider_phase self) \<and>
     noise_mean (params self) = val (slider_noise_mean self) \<and>
     noise_covariance (params self) = val (slider_noise_cov self) \<and>
     cutoff_frequency (params self) = val (slider_cutoff self)"
  then show "synced self"
    by (simp add: synced_def dict_update_def read_sliders_def)
qed

lemma update_synced: "synced (snd (update L self))"
  by (simp add: synced_fields update_params update_sliders)

lemma update_harmonic_fresh:
  assumes "harmonic_fresh self"
  shows "harmonic_fresh (snd (update L self))"
proof (cases "harmonic_stale self")
  case True
  then show ?thesis
    by (simp add: harmonic_fresh_def update_harmonic update_params)
next
  case False
  then have "calculate_harmonic (dict_update (params self) (read_sliders self)) =
      calculate_harmonic (params self)"
    by (intro calculate_harmonic_cong) (simp_all add: harmonic_stale_def)
  with False assms show ?thesis
    by (simp add: harmonic_fresh_def update_harmonic update_params)
qed

lemma update_valinit_defaults:
  "valinit_defaults (snd (update L self)) = valinit_defaults self"
  by (simp add: valinit_defaults_def update_sliders)

lemma update_invariant: "harmonic_fresh self \<Longrightarrow> valinit_defaults self \<Longrightarrow> invariant (snd (update L self))"
  by (simp add: invariant_def update_synced update_harmonic_fresh update_valinit_defaults)

lemma update_invariant': "invariant self \<Longrightarrow> invariant (snd (update L self))"
  by (simp add: invariant_def update_synced update_harmonic_fresh update_valinit_defaults)

lemma put_slider_val_frame [simp]:
  "params (put_slider f ((get_slider f self)\<lparr>val := v\<rparr>) self) = params self"
  "harmonic (put_slider f ((get_slider f self)\<lparr>val := v\<rparr>) self) = harmonic self"
  "noise (put_slider f ((get_slider f self)\<lparr>val := v\<rparr>) self) = noise self"
  "rng_draws (put_slider f ((get_slider f self)\<lparr>val := v\<rparr>) self) = rng_draws self"
  "draw_requests (put_slider f ((get_slider f self)\<lparr>val := v\<rparr>) self) = draw_requests self"
  "line_noisy (put_slider f ((get_slider f self)\<lparr>val := v\<rparr>) self) = line_noisy self"
  "line_clean (put_slider f ((get_slider f self)\<lparr>val := v\<rparr>) self) = line_clean self"
  "line_filtered (put_slider f ((get_slider f self)\<lparr>val := v\<rparr>) self) = line_filtered self"
  by (cases f; simp)+

lemma get_put_slider [simp]:
  "get_slider g (put_slider f s self) = (if g = f then s else get_slider g self)"
  by (cases f; cases g; simp)

lemma get_slider_update [simp]: "get_slider f (snd (update L self)) = get_slider f self"
  by (cases f; simp add: update_sliders)

lemma synced_all: "synced self \<longleftrightarrow> (\<forall>f. param_of f (params self) = val (get_slider f self))"
proof
  assume "synced self"
  then show "\<forall>f. param_of f (params self) = val (get_slider f self)"
    by (auto simp add: synced_fields intro: slider_name.induct)
next
  assume a: "\<forall>f. param_of f (params self) = val (get_slider f self)"
  show "synced self"
    using a [rule_format, of Amp] a [rule_format, of Freq] a [rule_format, of Phase]
      a [rule_format, of NoiseMean] a [rule_format, of NoiseCov] a [rule_format, of Cutoff]
    by (simp add: synced_fields)
qed

lemma valinit_defaults_all:
  "valinit_defaults self \<longleftrightarrow> (\<forall>f. valinit (get_slider f self) = param_of f initial_params)"
proof
  assume "valinit_defaults self"
  then show "\<forall>f. valinit (get_slider f self) = param_of f initial_params"
    by (auto simp add: valinit_defaults_def intro: slider_name.induct)
next
  assume a: "\<forall>f. valinit (get_slider f self) = param_of f initial_params"
  show "valinit_defaults self"
    using a [rule_format, of Amp] a [rule_format, of Freq] a [rule_format, of Phase]
      a [rule_format, of NoiseMean] a [rule_format, of NoiseCov] a [rule_format, of Cutoff]
    by (simp add: valinit_defaults_def)
qed

lemma set_val_invariant:
  assumes "invariant self"
  shows "invariant (snd (set_val L f v self))"
proof -
  let ?s = "put_slider f ((get_slider f self)\<lparr>val := v\<rparr>) self"
  from assms have "harmonic_fresh ?s"
    by (simp add: invariant_def harmonic_fresh_def)
  moreover from assms have "valinit_defaults ?s"
    by (simp add: invariant_def valinit_defaults_all)
  ultimately show ?thesis
    by (simp add: set_val_def update_invariant)
qed

lemma set_val_slider:
  "get_slider g (snd (set_val L f v self)) =
     (if g = f then (get_slider f self)\<lparr>val := v\<rparr> else get_slider g self)"
  by (simp add: set_val_def)

lemma set_val_show_noise:
  "show_noise (params (snd (set_val L f v self))) = show_noise (params self)"
  by (simp add: set_val_def update_params)

lemma slider_reset_invariant:
  "invariant self \<Longrightarrow> invariant (snd (slider_reset L f self))"
  by (simp add: slider_reset_def set_val_invariant)

lemma slider_reset_slider:
  "get_slider g (snd (slider_reset L f self)) =
     (if g = f then (get_slider f self)\<lparr>val := valinit (get_slider f self)\<rparr>
      else get_slider g self)"
  by (simp add: slider_reset_def set_val_slider)

lemma slider_reset_show_noise:
  "show_noise (params (snd (slider_reset L f self))) = show_noise (params self)"
  by (simp add: slider_reset_def set_val_show_noise)

lemma resets_invariant:
  "invariant self \<Longrightarrow> invariant (snd (resets L fs self))"
proof (induction fs arbitrary: self)
  case Nil
  then show ?case by simp
next
  case (Cons f fs)
  from Cons.prems have inv: "invariant (snd (slider_reset L f self))"
    by (rule slider_reset_invariant)
  show ?case
  proof (cases "slider_reset L f self")
    case (Pair r s)
    with inv have "invariant s" by simp
    with Pair Cons.IH [of s] show ?thesis
      by (cases r) simp_all
  qed
qed

lemma resets_show_noise:
  "show_noise (params (snd (resets L fs self))) = show_noise (params self)"
proof (induction fs arbitrary: self)
  case Nil
  then show ?case by simp
next
  case (Cons f fs)
  show ?case
  proof (cases "slider_reset L f self")
    case (Pair r s)
    have "show_noise (params s) = show_noise (params self)"
      using slider_reset_show_noise [of L f self] Pair by simp
    with Pair Cons.IH [of s] show ?thesis
      by (cases r) simp_all
  qed
qed

lemma resets_valinit:
  "valinit (get_slider g (snd (resets L fs self))) = valinit (get_slider g self)"
proof (induction fs arbitrary: self)
  case Nil
  then show ?case by simp
next
  case (Cons f fs)
  show ?case
  proof (cases "slider_reset L f self")
    case (Pair r s)
    have "valinit (get_slider g s) = valinit (get_slider g self)"
      using slider_reset_slider [of g L f self] Pair by simp
    with Pair Cons.IH [of s] show ?thesis
      by (cases r) simp_all
  qed
qed

lemma resets_at_valinit:
  assumes "resets L fs self = (None, self')"
    and "g \<in> set fs \<or> val (get_slider g self) = valinit (get_slider g self)"
  shows "val (get_slider g self') = valinit (get_slider g self')"
  using assms
proof (induction fs arbitrary: self)
  case Nil
  then show ?case by simp
next
  case (Cons f fs)
  show ?case
  proof (cases "slider_reset L f self")
    case (Pair r s)
    with Cons.prems(1) have r: "r = None" and rest: "resets L fs s = (None, self')"
      by (auto split: option.splits)
    have "g \<in> set fs \<or> val (get_slider g s) = valinit (get_slider g s)"
      using Cons.prems(2) slider_reset_slider [of g L f self] Pair by auto
    with rest show ?thesis
      by (rule Cons.IH)
  qed
qed

lemma toggle_noise_invariant: "invariant self \<Longrightarrow> invariant (toggle_noise self)"
  by (simp add: invariant_def harmonic_fresh_def synced_fields valinit_defaults_def
      toggle_noise_def Let_def calculate_harmonic_def)

lemma Slider_in_range: "lo \<le> v \<Longrightarrow> v \<le> hi \<Longrightarrow> Slider lo hi v = \<lparr>val = v, valinit = v, valmin = lo, valmax = hi\<rparr>"
  by (auto simp add: Slider_def Let_def)

lemma constructed_sliders:
  "slider_amp (constructed L) = \<lparr>val = 1, valinit = 1, valmin = 0.1, valmax = 2\<rparr>"
  "slider_freq (constructed L) = \<lparr>val = 0.3, valinit = 0.3, valmin = 0.1, valmax = 2\<rparr>"
  "slider_phase (constructed L) = \<lparr>val = 0, valinit = 0, valmin = 0, valmax = 2 * pi\<rparr>"
  "slider_noise_mean (constructed L) = \<lparr>val = 0, valinit = 0, valmin = - 0.5, valmax = 0.5\<rparr>"
  "slider_noise_cov (constructed L) = \<lparr>val = 0.15, valinit = 0.15, valmin = 0, valmax = 0.5\<rparr>"
  "slider_cutoff (constructed L) = \<lparr>val = 2, valinit = 2, valmin = 0.1, valmax = 10\<rparr>"
  by (simp_all add: constructed_def Let_def initial_params_def Slider_in_range)

lemma constructed_fields:
  "params (constructed L) = initial_params"
  "harmonic (constructed L) = calculate_harmonic initial_params"
  "noise (constructed L) = generate_noise L initial_params 0"
  "rng_draws (constructed L) = 1"
  "draw_requests (constructed L) = 0"
  by (simp_all add: constructed_def Let_def)

lemma constructed_invariant: "invariant (constructed L)"
  by (simp add: invariant_def harmonic_fresh_def synced_fields valinit_defaults_def
      constructed_sliders constructed_fields) (simp add: initial_params_def)

lemma init_invariant: "init L = Inr self \<Longrightarrow> invariant self"
proof -
  assume a: "init L = Inr self"
  have "invariant (snd (update L (constructed L)))"
    using constructed_invariant [of L] by (rule update_invariant')
  moreover from a have "self = snd (update L (constructed L))"
    by (auto simp add: init_def split: prod.splits option.splits)
  ultimately show ?thesis by simp
qed

lemma reachable_invariant: "reachable L self \<Longrightarrow> invariant self"
proof (induction rule: reachable.induct)
  case (started self)
  then show ?case by (rule init_invariant)
next
  case (changed self f v)
  then show ?case by (simp add: set_val_invariant)
next
  case (toggled self)
  then show ?case by (simp add: toggle_noise_invariant)
next
  case (was_reset self)
  then have "invariant self" by simp
  then show ?case unfolding reset_def by (rule resets_invariant)
qed

subsection \<open>The concrete library and objects\<close>

lemma lowpass_sample:
  "lowpass sample_lib c x = (if c \<le> 0 \<or> 999 / 20 \<le> c then Inl ValueError else Inr x)"
  by (simp add: lowpass_def sample_lib_def nyquist_value)

lemma sample_contract: "butter_rejects sample_lib" "butter_accepts sample_lib"
  by (simp_all add: butter_rejects_def butter_accepts_def sample_lib_def)

lemma constructed_not_stale:
  "\<not> harmonic_stale (constructed L)" "\<not> noise_stale (constructed L)"
  by (simp_all add: harmonic_stale_def noise_stale_def constructed_sliders constructed_fields
      initial_params_def)

lemma first_update_fields:
  "params (snd (update L (constructed L))) = initial_params"
  "harmonic (snd (update L (constructed L))) = calculate_harmonic initial_params"
  "noise (snd (update L (constructed L))) = generate_noise L initial_params 0"
  "rng_draws (snd (update L (constructed L))) = 1"
  "slider_amp (snd (update L (constructed L))) = \<lparr>val = 1, valinit = 1, valmin = 0.1, valmax = 2\<rparr>"
  "slider_freq (snd (update L (constructed L))) = \<lparr>val = 0.3, valinit = 0.3, valmin = 0.1, valmax = 2\<rparr>"
  "slider_phase (snd (update L (constructed L))) = \<lparr>val = 0, valinit = 0, valmin = 0, valmax = 2 * pi\<rparr>"
  "slider_noise_mean (snd (update L (constructed L))) = \<lparr>val = 0, valinit = 0, valmin = - 0.5, valmax = 0.5\<rparr>"
  "slider_noise_cov (snd (update L (constructed L))) = \<lparr>val = 0.15, valinit = 0.15, valmin = 0, valmax = 0.5\<rparr>"
  "slider_cutoff (snd (update L (constructed L))) = \<lparr>val = 2, valinit = 2, valmin = 0.1, valmax = 10\<rparr>"
proof -
  have "synced (constructed L)"
    using constructed_invariant [of L] by (simp add: invariant_def)
  then show "params (snd (update L (constructed L))) = initial_params"
    by (simp add: update_params synced_def constructed_fields)
qed (simp_all add: update_harmonic update_noise update_rng_draws update_sliders
    constructed_not_stale constructed_fields constructed_sliders)

lemma startup_fields:
  "params startup = initial_params"
  "harmonic startup = calculate_harmonic initial_params"
  "noise startup = generate_noise sample_lib initial_params 0"
  "rng_draws startup = 1"
  "slider_amp startup = \<lparr>val = 1, valinit = 1, valmin = 0.1, valmax = 2\<rparr>"
  "slider_freq startup = \<lparr>val = 0.3, valinit = 0.3, valmin = 0.1, valmax = 2\<rparr>"
  "slider_phase startup = \<lparr>val = 0, valinit = 0, valmin = 0, valmax = 2 * pi\<rparr>"
  "slider_noise_mean startup = \<lparr>val = 0, valinit = 0, valmin = - 0.5, valmax = 0.5\<rparr>"
  "slider_noise_cov startup = \<lparr>val = 0.15, valinit = 0.15, valmin = 0, valmax = 0.5\<rparr>"
  "slider_cutoff startup = \<lparr>val = 2, valinit = 2, valmin = 0.1, valmax = 10\<rparr>"
  unfolding startup_def by (rule first_update_fields)+

lemma init_sample: "init sample_lib = Inr startup"
proof -
  have "fst (update sample_lib (constructed sample_lib)) = None"
    by (subst update_result) (simp add: lowpass_sample constructed_sliders)
  then show ?thesis
    by (cases "update sample_lib (constructed sample_lib)") (simp add: init_def startup_def)
qed

lemma reachable_startup: "reachable sample_lib startup"
  using init_sample by (rule reachable.started)

lemma initial_params_fields [simp]:
  "amplitude initial_params = 1"
  "frequency initial_params = 0.3"
  "phase initial_params = 0"
  "noise_mean initial_params = 0"
  "noise_covariance initial_params = 0.15"
  "cutoff_frequency initial_params = 2"
  "show_noise initial_params"
  by (simp_all add: initial_params_def)

lemma filtered_step:
  "case lowpass L (cutoff_frequency (params (snd (update L self))))
           (map2 (+) (harmonic (snd (update L self))) (noise (snd (update L self)))) of
      Inl e \<Rightarrow> fst (update L self) = Some e
    | Inr y \<Rightarrow> fst (update L self) = None \<and> ydata (line_filtered (snd (update L self))) = y"
proof -
  let ?x = "map2 (+) (harmonic (snd (update L self))) (noise (snd (update L self)))"
  have c: "cutoff_frequency (params (snd (update L self))) = val (slider_cutoff self)"
    by (simp add: update_params)
  show ?thesis
  proof (cases "lowpass L (val (slider_cutoff self)) ?x")
    case (Inl e)
    then have "fst (update L self) = Some e"
      by (subst update_result) simp
    with Inl c show ?thesis by simp
  next
    case (Inr y)
    then have "fst (update L self) = None"
      by (subst update_result) simp
    moreover from Inr have "ydata (line_filtered (snd (update L self))) = y"
      by (simp add: update_line_filtered)
    ultimately show ?thesis using Inr c by simp
  qed
qed

lemma update_filter_rejects:
  assumes "butter_rejects L" and "1 \<le> cutoff_frequency (params self) / nyquist"
  shows "update_filter L self x = Inl ValueError"
proof -
  from assms have "butter L 5 (cutoff_frequency (params self) / nyquist) = Inl ValueError"
    by (simp add: butter_rejects_def)
  then show ?thesis
    by (simp add: update_filter_lowpass lowpass_def)
qed

lemma cutoff_50_fields:
  "params cutoff_50 = initial_params\<lparr>cutoff_frequency := 50\<rparr>"
  "harmonic cutoff_50 = calculate_harmonic initial_params"
  "noise cutoff_50 = noise startup"
  "slider_amp cutoff_50 = slider_amp startup"
  "slider_freq cutoff_50 = slider_freq startup"
  "slider_phase cutoff_50 = slider_phase startup"
  "slider_noise_mean cutoff_50 = slider_noise_mean startup"
  "slider_noise_cov cutoff_50 = slider_noise_cov startup"
  "slider_cutoff cutoff_50 = (slider_cutoff startup)\<lparr>val := 50\<rparr>"
  "line_filtered cutoff_50 = line_filtered startup"
  by (simp_all add: cutoff_50_def set_val_def update_params update_harmonic update_noise
      update_sliders update_line_filtered lowpass_sample
      harmonic_stale_def noise_stale_def startup_fields dict_update_def initial_params_def)

lemma calculate_harmonic_nth:
  "i < 1000 \<Longrightarrow>
     calculate_harmonic p ! i =
       amplitude p * sin (2 * pi * frequency p * (real i * (10 / 999)) + phase p)"
  by (simp add: calculate_harmonic_def length_t nth_t)

lemma sin_sample_1_pos: "0 < sin (2 * pi * 0.3 * (10 / 999) + 0)"
proof -
  have "2 * pi * 0.3 * (10 / 999) = pi * (2 / 333)" by simp
  moreover have "0 < pi * (2 / 333)" by simp
  moreover have "pi * (2 / 333) < pi * 1"
    by (rule mult_strict_left_mono) simp_all
  ultimately show ?thesis
    by (simp add: sin_gt_zero)
qed

lemma harmonic_amplitude_2_differs:
  "calculate_harmonic (initial_params\<lparr>amplitude := 2, cutoff_frequency := 50\<rparr>) \<noteq>
   calculate_harmonic initial_params"
proof
  assume "calculate_harmonic (initial_params\<lparr>amplitude := 2, cutoff_frequency := 50\<rparr>) =
    calculate_harmonic initial_params"
  then have "calculate_harmonic (initial_params\<lparr>amplitude := 2, cutoff_frequency := 50\<rparr>) ! Suc 0 =
    calculate_harmonic initial_params ! Suc 0"
    by simp
  then have "2 * sin (2 * pi * 0.3 * (10 / 999) + 0) = sin (2 * pi * 0.3 * (10 / 999) + 0)"
    by (simp add: calculate_harmonic_nth)
  with sin_sample_1_pos show False by simp
qed

lemma resets_noop:
  "\<forall>f\<in>set fs. val (get_slider f self) = valinit (get_slider f self) \<Longrightarrow>
     resets L fs self = (None, self)"
  by (induction fs) (simp_all add: slider_reset_def)

lemma first_update_harmonic: "init L = Inr start \<Longrightarrow> harmonic start = calculate_harmonic initial_params"
proof -
  assume "init L = Inr start"
  then have "start = snd (update L (constructed L))"
    by (cases "update L (constructed L)") (auto simp add: init_def split: option.splits)
  then show ?thesis
    by (simp add: first_update_fields)
qed

lemma amp_2_slider:
  "get_slider f amp_2 = (if f = Amp then (slider_amp startup)\<lparr>val := 2\<rparr> else get_slider f startup)"
  by (simp add: amp_2_def set_val_slider)

lemma reachable_amp_2: "reachable sample_lib amp_2"
  unfolding amp_2_def using reachable_startup by (rule reachable.changed)

lemma reset_amp_2: "reset sample_lib amp_2 = (None, snd (set_val sample_lib Amp 1 amp_2))"
proof -
  let ?s = "snd (set_val sample_lib Amp 1 amp_2)"
  have sr: "slider_reset sample_lib Amp amp_2 = set_val sample_lib Amp 1 amp_2"
    using amp_2_slider [of Amp] by (simp add: slider_reset_def startup_fields)
  have "val (slider_cutoff (put_slider Amp ((get_slider Amp amp_2)\<lparr>val := 1\<rparr>) amp_2)) = 2"
    using amp_2_slider [of Cutoff] by (simp add: startup_fields)
  then have "fst (set_val sample_lib Amp 1 amp_2) = None"
    unfolding set_val_def by (subst update_result) (simp add: lowpass_sample)
  then have one: "slider_reset sample_lib Amp amp_2 = (None, ?s)"
    by (simp add: sr prod_eq_iff)
  have sl: "get_slider f ?s = get_slider f startup" for f
    using amp_2_slider [of f] by (cases f) (simp_all add: set_val_slider startup_fields)
  have "resets sample_lib [Freq, Phase, NoiseMean, NoiseCov, Cutoff] ?s = (None, ?s)"
    by (rule resets_noop) (simp add: sl startup_fields)
  with one show ?thesis
    by (simp add: reset_def)
qed

lemma noise_regenerated_iff:
  "rng_draws (snd (update L self)) = rng_draws self + 1 \<longleftrightarrow> \<not> harmonic_stale self \<and> noise_stale self"
  "rng_draws (snd (update L self)) = rng_draws self \<longleftrightarrow> \<not> (\<not> harmonic_stale self \<and> noise_stale self)"
  by (simp_all add: update_rng_draws)

subsection \<open>What one slider event leaves\<close>

lemma set_val_entered: "set_val L f v self = update L (entered f v self)"
  by (simp add: set_val_def entered_def)

lemma entered_frame [simp]:
  "params (entered f v self) = params self"
  "harmonic (entered f v self) = harmonic self"
  "noise (entered f v self) = noise self"
  "rng_draws (entered f v self) = rng_draws self"
  "draw_requests (entered f v self) = draw_requests self"
  "line_noisy (entered f v self) = line_noisy self"
  "line_clean (entered f v self) = line_clean self"
  "line_filtered (entered f v self) = line_filtered self"
  by (simp_all add: entered_def)

lemma entered_slider:
  "get_slider g (entered f v self) = (if g = f then (get_slider f self)\<lparr>val := v\<rparr> else get_slider g self)"
  by (simp add: entered_def)

lemma entered_stale:
  assumes "synced self"
  shows "harmonic_stale (entered f v self) \<longleftrightarrow> f \<in> {Amp, Freq, Phase} \<and> v \<noteq> param_of f (params self)"
    and "noise_stale (entered f v self) \<longleftrightarrow> f \<in> {NoiseMean, NoiseCov} \<and> v \<noteq> param_of f (params self)"
  using assms
  by (cases f; auto simp add: harmonic_stale_def noise_stale_def entered_def synced_fields)+

lemma entered_not_both_stale:
  "synced self \<Longrightarrow> \<not> (harmonic_stale (entered f v self) \<and> noise_stale (entered f v self))"
  by (auto simp add: entered_stale)

lemma set_val_effect:
  assumes "reachable L self"
  shows "val (get_slider f (snd (set_val L f v self))) = v"
    and "params (snd (set_val L f v self)) =
           dict_update (params self) (read_sliders (snd (set_val L f v self)))"
    and "param_of f (params (snd (set_val L f v self))) = v"
    and "harmonic (snd (set_val L f v self)) = calculate_harmonic (params (snd (set_val L f v self)))"
    and "harmonic (snd (set_val L f v self)) =
           (if harmonic_stale (entered f v self)
            then calculate_harmonic (params (snd (set_val L f v self)))
            else harmonic self)"
    and "noise (snd (set_val L f v self)) =
           (if noise_stale (entered f v self)
            then generate_noise L (params (snd (set_val L f v self))) (rng_draws self)
            else noise self)"
    and "rng_draws (snd (set_val L f v self)) =
           (if noise_stale (entered f v self) then rng_draws self + 1 else rng_draws self)"
    and "ydata (line_noisy (snd (set_val L f v self))) =
           map2 (+) (harmonic (snd (set_val L f v self))) (noise (snd (set_val L f v self)))"
    and "ydata (line_clean (snd (set_val L f v self))) = harmonic (snd (set_val L f v self))"
proof -
  let ?e = "entered f v self"
  let ?s = "snd (set_val L f v self)"
  from assms have inv: "invariant self"
    by (rule reachable_invariant)
  then have sy: "synced self"
    by (simp add: invariant_def)
  have nb: "\<not> (harmonic_stale ?e \<and> noise_stale ?e)"
    using sy by (rule entered_not_both_stale)
  have s: "?s = snd (update L ?e)"
    by (simp add: set_val_entered)
  have rs: "read_sliders ?s = read_sliders ?e"
    unfolding s by (simp add: read_sliders_def update_sliders)
  show 1: "val (get_slider f ?s) = v"
    by (simp add: set_val_slider)
  show p: "params ?s = dict_update (params self) (read_sliders ?s)"
    unfolding rs unfolding s by (simp add: update_params)
  have "synced ?s"
    unfolding s by (rule update_synced)
  with 1 show "param_of f (params ?s) = v"
    by (simp add: synced_all)
  from inv have "invariant ?s"
    by (rule set_val_invariant)
  then show "harmonic ?s = calculate_harmonic (params ?s)"
    by (simp add: invariant_def harmonic_fresh_def)
  show "harmonic ?s =
           (if harmonic_stale ?e then calculate_harmonic (params ?s) else harmonic self)"
    unfolding s by (simp add: update_harmonic update_params)
  show "noise ?s =
           (if noise_stale ?e then generate_noise L (params ?s) (rng_draws self) else noise self)"
    unfolding s using nb by (auto simp add: update_noise update_params)
  show "rng_draws ?s = (if noise_stale ?e then rng_draws self + 1 else rng_draws self)"
    unfolding s using nb by (auto simp add: update_rng_draws)
  show "ydata (line_noisy ?s) = map2 (+) (harmonic ?s) (noise ?s)"
    unfolding s by (subst update_line_noisy) simp
  show "ydata (line_clean ?s) = harmonic ?s"
    unfolding s by (subst update_line_clean) simp
qed

lemma set_val_filter:
  "case lowpass L (cutoff_frequency (params (snd (set_val L f v self))))
          (map2 (+) (harmonic (snd (set_val L f v self))) (noise (snd (set_val L f v self)))) of
     Inl e \<Rightarrow> fst (set_val L f v self) = Some e \<and>
              line_filtered (snd (set_val L f v self)) = line_filtered self \<and>
              draw_requests (snd (set_val L f v self)) = draw_requests self
   | Inr y \<Rightarrow> fst (set_val L f v self) = None \<and>
              line_filtered (snd (set_val L f v self)) = (line_filtered self)\<lparr>ydata := y\<rparr> \<and>
              draw_requests (snd (set_val L f v self)) = draw_requests self + 1"
proof -
  let ?e = "entered f v self"
  let ?x = "map2 (+) (harmonic (snd (update L ?e))) (noise (snd (update L ?e)))"
  have c: "cutoff_frequency (params (snd (update L ?e))) = val (slider_cutoff ?e)"
    by (simp add: update_params)
  show ?thesis
    unfolding set_val_entered c
  proof (cases "lowpass L (val (slider_cutoff ?e)) ?x")
    case (Inl e)
    then have r: "fst (update L ?e) = Some e"
      by (subst update_result) simp
    from Inl have "line_filtered (snd (update L ?e)) = line_filtered self"
      by (simp add: update_line_filtered)
    moreover from r have "draw_requests (snd (update L ?e)) = draw_requests self"
      by (simp add: update_draw_requests)
    ultimately show "case lowpass L (val (slider_cutoff ?e)) ?x of
       Inl e \<Rightarrow> fst (update L ?e) = Some e \<and>
              line_filtered (snd (update L ?e)) = line_filtered self \<and>
              draw_requests (snd (update L ?e)) = draw_requests self
     | Inr y \<Rightarrow> fst (update L ?e) = None \<and>
              line_filtered (snd (update L ?e)) = (line_filtered self)\<lparr>ydata := y\<rparr> \<and>
              draw_requests (snd (update L ?e)) = draw_requests self + 1"
      using Inl r by simp
  next
    case (Inr y)
    then have r: "fst (update L ?e) = None"
      by (subst update_result) simp
    from Inr have "line_filtered (snd (update L ?e)) = (line_filtered self)\<lparr>ydata := y\<rparr>"
      by (simp add: update_line_filtered)
    moreover from r have "draw_requests (snd (update L ?e)) = draw_requests self + 1"
      by (simp add: update_draw_requests)
    ultimately show "case lowpass L (val (slider_cutoff ?e)) ?x of
       Inl e \<Rightarrow> fst (update L ?e) = Some e \<and>
              line_filtered (snd (update L ?e)) = line_filtered self \<and>
              draw_requests (snd (update L ?e)) = draw_requests self
     | Inr y \<Rightarrow> fst (update L ?e) = None \<and>
              line_filtered (snd (update L ?e)) = (line_filtered self)\<lparr>ydata := y\<rparr> \<and>
              draw_requests (snd (update L ?e)) = draw_requests self + 1"
      using Inr r by simp
  qed
qed

lemma resets_draw_requests:
  assumes "distinct fs" and "resets L fs self = (None, self')"
  shows "draw_requests self' =
     draw_requests self +
     length (filter (\<lambda>g. val (get_slider g self) \<noteq> valinit (get_slider g self)) fs)"
  using assms
proof (induction fs arbitrary: self)
  case Nil
  then show ?case by simp
next
  case (Cons f fs)
  show ?case
  proof (cases "slider_reset L f self")
    case (Pair r s)
    with Cons.prems(2) have r: "r = None" and rest: "resets L fs s = (None, self')"
      by (auto split: option.splits)
    from Cons.prems(1) have d: "distinct fs" and nf: "f \<notin> set fs"
      by simp_all
    have same: "get_slider g s = get_slider g self" if "g \<in> set fs" for g
      using slider_reset_slider [of g L f self] Pair that nf by auto
    have "filter (\<lambda>g. val (get_slider g s) \<noteq> valinit (get_slider g s)) fs =
        filter (\<lambda>g. val (get_slider g self) \<noteq> valinit (get_slider g self)) fs"
      by (rule filter_cong) (simp_all add: same)
    with Cons.IH [OF d rest]
    have ih: "draw_requests self' = draw_requests s +
        length (filter (\<lambda>g. val (get_slider g self) \<noteq> valinit (get_slider g self)) fs)"
      by simp
    have "draw_requests s =
        draw_requests self + (if val (get_slider f self) \<noteq> valinit (get_slider f self) then 1 else 0)"
    proof (cases "val (get_slider f self) \<noteq> valinit (get_slider f self)")
      case True
      with Pair r have u: "set_val L f (valinit (get_slider f self)) self = (None, s)"
        by (simp add: slider_reset_def)
      then have "fst (update L (entered f (valinit (get_slider f self)) self)) = None"
        and "snd (update L (entered f (valinit (get_slider f self)) self)) = s"
        by (simp_all add: set_val_entered)
      then show ?thesis
        using update_draw_requests [of L "entered f (valinit (get_slider f self)) self"] True
        by simp
    next
      case False
      with Pair show ?thesis
        by (simp add: slider_reset_def)
    qed
    with ih show ?thesis by simp
  qed
qed

lemma reachable_cutoff_50: "reachable sample_lib cutoff_50"
  unfolding cutoff_50_def using reachable_startup by (rule reachable.changed)

section \<open>The claims\<close>

text \<open>
  Claim C1. In every reachable object, so after \<open>__init__\<close> and after every slider
  event, toggle and reset, the harmonic array has one entry per sample of the time
  base, and entry \<open>i\<close> is \<open>amplitude * sin(2 * pi * frequency * t[i] + phase)\<close> for the
  values the amplitude, frequency and phase sliders hold, which are also the values in
  \<open>self.params\<close>: a function of these three and the time base only. (Read in exact real
  arithmetic.)
\<close>

theorem harmonic_formula:
  assumes "reachable L self"
  shows "length (harmonic self) = length t \<and>
     (\<forall>i<length t. harmonic self ! i =
        val (slider_amp self) *
        sin (2 * pi * val (slider_freq self) * (t ! i) + val (slider_phase self))) \<and>
     amplitude (params self) = val (slider_amp self) \<and>
     frequency (params self) = val (slider_freq self) \<and>
     phase (params self) = val (slider_phase self)"
proof -
  from assms have inv: "invariant self"
    by (rule reachable_invariant)
  then have h: "harmonic self = calculate_harmonic (params self)"
    by (simp add: invariant_def harmonic_fresh_def)
  from inv have "synced self"
    by (simp add: invariant_def)
  then have p: "amplitude (params self) = val (slider_amp self)"
    "frequency (params self) = val (slider_freq self)"
    "phase (params self) = val (slider_phase self)"
    by (simp_all add: synced_fields)
  show ?thesis
    unfolding h by (simp add: calculate_harmonic_def p)
qed

text \<open>
  After the amplitude slider was set to 2: the entry at the second sample is
  \<open>2 * sin(2 * pi * 0.3 * 10/999)\<close>, which is positive.
\<close>

theorem harmonic_formula_witness:
  "reachable sample_lib amp_2 \<and> val (slider_amp amp_2) = 2 \<and>
   val (slider_freq amp_2) = 0.3 \<and> val (slider_phase amp_2) = 0 \<and>
   t ! 1 = 10 / 999 \<and>
   harmonic amp_2 ! 1 = 2 * sin (2 * pi * 0.3 * (10 / 999)) \<and>
   0 < harmonic amp_2 ! 1"
proof -
  have sl: "val (slider_amp amp_2) = 2" "val (slider_freq amp_2) = 0.3"
    "val (slider_phase amp_2) = 0"
    using amp_2_slider [of Amp] amp_2_slider [of Freq] amp_2_slider [of Phase]
    by (simp_all add: startup_fields)
  have t1: "t ! 1 = 10 / 999"
    using nth_t [of 1] by simp
  have "(1::nat) < length t"
    by (simp add: length_t)
  with harmonic_formula [OF reachable_amp_2]
  have "harmonic amp_2 ! 1 =
      val (slider_amp amp_2) *
      sin (2 * pi * val (slider_freq amp_2) * (t ! 1) + val (slider_phase amp_2))"
    by blast
  then have h: "harmonic amp_2 ! 1 = 2 * sin (2 * pi * 0.3 * (10 / 999))"
    unfolding sl t1 by simp
  have "0 < harmonic amp_2 ! 1"
    unfolding h using sin_sample_1_pos by simp
  with h t1 sl reachable_amp_2 show ?thesis
    by simp
qed



text \<open>
  Claim C3. Every call of \<open>_update\<close> runs the filter, whatever changed or did not
  change: the cut-off it uses is the cut-off slider's current value, its input is the
  sum of the harmonic and the noise as the call leaves them, and its result, when it
  returns one, is the filtered line's data; when it raises, the call raises.
\<close>

theorem filtered_recomputed_every_call:
  "cutoff_frequency (params (snd (update L self))) = val (slider_cutoff self) \<and>
   (case lowpass L (cutoff_frequency (params (snd (update L self))))
           (map2 (+) (harmonic (snd (update L self))) (noise (snd (update L self)))) of
      Inl e \<Rightarrow> fst (update L self) = Some e
    | Inr y \<Rightarrow> fst (update L self) = None \<and> ydata (line_filtered (snd (update L self))) = y)"
  using filtered_step [of L self] by (simp add: update_params)

text \<open>
  A call in which no slider differs from the parameters still filters the noisy signal
  (the concrete \<open>filtfilt\<close> returns its input).
\<close>

theorem filtered_recomputed_every_call_witness:
  "\<not> harmonic_stale startup \<and> \<not> noise_stale startup \<and>
   cutoff_frequency (params startup) = val (slider_cutoff startup) \<and>
   fst (update sample_lib startup) = None \<and>
   ydata (line_filtered (snd (update sample_lib startup))) =
     map2 (+) (harmonic (snd (update sample_lib startup))) (noise (snd (update sample_lib startup)))"
  using filtered_recomputed_every_call [of sample_lib startup]
  by (simp add: update_params lowpass_sample startup_fields harmonic_stale_def noise_stale_def)

text \<open>
  Claim C4. When a call of \<open>_update\<close> is followed by a change of the cut-off slider
  alone, the second call leaves the harmonic array, the noise array and the generator
  position as the first call left them, takes the new cut-off into the parameters, and
  filters the same noisy signal with the new cut-off.
\<close>

theorem cutoff_only_change:
  assumes "self1 = snd (update L self0)"
    and "set_val L Cutoff c self1 = (r, self2)"
  shows "harmonic self2 = harmonic self1 \<and> noise self2 = noise self1 \<and>
     rng_draws self2 = rng_draws self1 \<and>
     cutoff_frequency (params self2) = c \<and>
     (case lowpass L c (map2 (+) (harmonic self1) (noise self1)) of
        Inl e \<Rightarrow> r = Some e
      | Inr y \<Rightarrow> r = None \<and> ydata (line_filtered self2) = y)"
proof -
  let ?s = "put_slider Cutoff ((get_slider Cutoff self1)\<lparr>val := c\<rparr>) self1"
  from assms(2) have up: "update L ?s = (r, self2)"
    by (simp add: set_val_def)
  have "synced self1"
    unfolding assms(1) by (rule update_synced)
  then have fresh: "\<not> harmonic_stale ?s" "\<not> noise_stale ?s"
    by (simp_all add: synced_fields harmonic_stale_def noise_stale_def)
  have h: "harmonic self2 = harmonic self1"
    using update_harmonic [of L ?s] fresh up by simp
  have n: "noise self2 = noise self1"
    using update_noise [of L ?s] fresh up by simp
  have g: "rng_draws self2 = rng_draws self1"
    using update_rng_draws [of L ?s] fresh up by simp
  have c: "cutoff_frequency (params self2) = c"
    using update_params [of L ?s] up by simp
  from up have r: "fst (update L ?s) = r" and s2: "snd (update L ?s) = self2"
    by simp_all
  have "case lowpass L (cutoff_frequency (params self2)) (map2 (+) (harmonic self2) (noise self2)) of
        Inl e \<Rightarrow> r = Some e
      | Inr y \<Rightarrow> r = None \<and> ydata (line_filtered self2) = y"
    using filtered_step [of L ?s] unfolding r s2 .
  with h n g c show ?thesis by simp
qed

text \<open>
  From the startup object, whose parameters are the sliders' values as after any call,
  with the cut-off moved from 2 to 3.
\<close>

theorem cutoff_only_change_witness:
  "harmonic (snd (set_val sample_lib Cutoff 3 startup)) = harmonic startup \<and>
   noise (snd (set_val sample_lib Cutoff 3 startup)) = noise startup \<and>
   rng_draws (snd (set_val sample_lib Cutoff 3 startup)) = 1 \<and>
   cutoff_frequency (params (snd (set_val sample_lib Cutoff 3 startup))) = 3 \<and>
   cutoff_frequency (params startup) = 2 \<and>
   fst (set_val sample_lib Cutoff 3 startup) = None \<and>
   ydata (line_filtered (snd (set_val sample_lib Cutoff 3 startup))) =
     map2 (+) (harmonic startup) (noise startup)"
  using cutoff_only_change [of startup sample_lib "constructed sample_lib" 3
      "fst (set_val sample_lib Cutoff 3 startup)" "snd (set_val sample_lib Cutoff 3 startup)"]
  by (simp add: startup_def [symmetric] lowpass_sample startup_fields)

text \<open>
  Claim C5. With a \<open>butter\<close> that rejects critical frequencies of 1 and above, as
  SciPy's does, a normalized cut-off \<open>cutoff_frequency / nyquist\<close> of at least 1 makes
  \<open>_update_filter\<close> raise that \<open>ValueError\<close> in every object (the cut-off is passed on
  as it is, not clamped); the error result carries no new object, and the call of
  \<open>_update\<close> around it raises too and leaves the filtered line as it was.
\<close>

theorem filter_design_error:
  assumes "butter_rejects L" and "1 \<le> c / nyquist"
  shows "(cutoff_frequency (params self) = c \<longrightarrow> update_filter L self x = Inl ValueError) \<and>
     (val (slider_cutoff self) = c \<longrightarrow>
        fst (update L self) = Some ValueError \<and>
        line_filtered (snd (update L self)) = line_filtered self)"
proof (intro conjI impI)
  assume "cutoff_frequency (params self) = c"
  with assms show "update_filter L self x = Inl ValueError"
    by (simp add: update_filter_rejects)
next
  assume v: "val (slider_cutoff self) = c"
  from assms have b: "butter L 5 (c / nyquist) = Inl ValueError"
    by (simp add: butter_rejects_def)
  have low: "lowpass L (val (slider_cutoff self)) y = Inl ValueError" for y
    using b v by (simp add: lowpass_def)
  show "fst (update L self) = Some ValueError"
    by (subst update_result) (simp add: low)
  show "line_filtered (snd (update L self)) = line_filtered self"
    by (simp add: update_line_filtered low)
qed

text \<open>
  With the cut-off at 50, above the Nyquist frequency 49.95.
\<close>

theorem filter_design_error_witness:
  "butter_rejects sample_lib \<and> (1::real) \<le> 50 / nyquist \<and>
   cutoff_frequency (params cutoff_50) = 50 \<and>
   update_filter sample_lib cutoff_50 [] = Inl ValueError \<and>
   val (slider_cutoff cutoff_50) = 50 \<and>
   fst (update sample_lib cutoff_50) = Some ValueError \<and>
   line_filtered (snd (update sample_lib cutoff_50)) = line_filtered cutoff_50"
  using filter_design_error [of sample_lib 50 cutoff_50 "[]"]
  by (simp add: sample_contract nyquist_value cutoff_50_fields)

text \<open>
  Claim C6, as the code has it. When the filter raises in the \<open>_update\<close> of a slider
  event, only the filter's own effect is missing: the filtered line is as before and no
  redraw is requested. Everything before the filter has happened: the slider holds the
  new value, the parameters have been overwritten with the sliders' values, the
  harmonic has been recomputed if amplitude, frequency or phase changed, the noise has
  been drawn anew (and the generator advanced) if a noise parameter changed, and the
  noisy and the clean line have been given the new signals.
\<close>

theorem filter_failure_partial_update:
  assumes "reachable L self" and "set_val L f v self = (Some e, self')"
  shows "line_filtered self' = line_filtered self \<and>
     draw_requests self' = draw_requests self \<and>
     val (get_slider f self') = v \<and>
     params self' = dict_update (params self) (read_sliders self') \<and>
     harmonic self' =
       (if harmonic_stale (entered f v self) then calculate_harmonic (params self')
        else harmonic self) \<and>
     noise self' =
       (if noise_stale (entered f v self)
        then generate_noise L (params self') (rng_draws self) else noise self) \<and>
     rng_draws self' =
       (if noise_stale (entered f v self) then rng_draws self + 1 else rng_draws self) \<and>
     ydata (line_noisy self') = map2 (+) (harmonic self') (noise self') \<and>
     ydata (line_clean self') = harmonic self'"
proof -
  from assms(2) have r: "fst (set_val L f v self) = Some e"
    and s: "snd (set_val L f v self) = self'"
    by simp_all
  have "line_filtered self' = line_filtered self \<and> draw_requests self' = draw_requests self"
  proof (cases "lowpass L (cutoff_frequency (params self')) (map2 (+) (harmonic self') (noise self'))")
    case (Inl e')
    with set_val_filter [of L f v self] show ?thesis
      unfolding s by simp
  next
    case (Inr y)
    with set_val_filter [of L f v self] r show ?thesis
      unfolding s by simp
  qed
  then show ?thesis
    using set_val_effect(1,2,5,6,7,8,9) [OF assms(1), of f v] unfolding s by simp
qed

text \<open>
  With the cut-off slider at 50, setting the noise mean to 0.2: the filter raises, the
  filtered line is as before, and the parameter and the noise are new.
\<close>

theorem filter_failure_partial_update_witness:
  "reachable sample_lib cutoff_50 \<and>
   fst (set_val sample_lib NoiseMean 0.2 cutoff_50) = Some ValueError \<and>
   line_filtered (snd (set_val sample_lib NoiseMean 0.2 cutoff_50)) = line_filtered cutoff_50 \<and>
   noise_mean (params (snd (set_val sample_lib NoiseMean 0.2 cutoff_50))) = 0.2 \<and>
   noise_mean (params cutoff_50) = 0 \<and>
   rng_draws (snd (set_val sample_lib NoiseMean 0.2 cutoff_50)) = rng_draws cutoff_50 + 1 \<and>
   harmonic (snd (set_val sample_lib NoiseMean 0.2 cutoff_50)) = harmonic cutoff_50"
proof -
  let ?r = "set_val sample_lib NoiseMean 0.2 cutoff_50"
  have c: "cutoff_frequency (params (snd ?r)) = 50"
    by (simp add: set_val_def update_params cutoff_50_fields startup_fields)
  have r: "fst ?r = Some ValueError"
    using set_val_filter [of sample_lib NoiseMean "0.2" cutoff_50]
    unfolding c by (simp add: lowpass_sample)
  have a: "noise_stale (entered NoiseMean 0.2 cutoff_50)"
    by (simp add: noise_stale_def entered_def cutoff_50_fields startup_fields initial_params_def)
  have b: "\<not> harmonic_stale (entered NoiseMean 0.2 cutoff_50)"
    by (simp add: harmonic_stale_def entered_def cutoff_50_fields startup_fields initial_params_def)
  have m: "noise_mean (params (snd ?r)) = 0.2"
    using set_val_effect(3) [OF reachable_cutoff_50, of NoiseMean "0.2"] by simp
  from filter_failure_partial_update [OF reachable_cutoff_50, of NoiseMean "0.2" ValueError "snd ?r"]
    r a b m reachable_cutoff_50
  show ?thesis
    by (simp add: prod_eq_iff cutoff_50_fields initial_params_def)
qed

text \<open>
  The claim as stated fails: with the cut-off at 50, setting the amplitude slider to 2
  raises \<open>ValueError\<close> in the filter, and yet the clean line's data and the amplitude
  parameter have changed; the filtered line alone is as before.
\<close>

theorem filter_failure_not_atomic:
  "fst (set_val sample_lib Amp 2 cutoff_50) = Some ValueError \<and>
   ydata (line_clean (snd (set_val sample_lib Amp 2 cutoff_50))) \<noteq> ydata (line_clean cutoff_50) \<and>
   amplitude (params (snd (set_val sample_lib Amp 2 cutoff_50))) = 2 \<and>
   amplitude (params cutoff_50) = 1 \<and>
   line_filtered (snd (set_val sample_lib Amp 2 cutoff_50)) = line_filtered cutoff_50"
proof -
  let ?s = "put_slider Amp ((get_slider Amp cutoff_50)\<lparr>val := 2\<rparr>) cutoff_50"
  have st: "harmonic_stale ?s"
    by (simp add: harmonic_stale_def cutoff_50_fields startup_fields)
  have p0: "dict_update (params ?s) (read_sliders ?s) =
      initial_params\<lparr>amplitude := 2, cutoff_frequency := 50\<rparr>"
    by (simp add: cutoff_50_fields startup_fields dict_update_def read_sliders_def
        initial_params_def)
  have low: "lowpass sample_lib (val (slider_cutoff ?s)) y = Inl ValueError" for y
    by (simp add: lowpass_sample cutoff_50_fields startup_fields)
  have r: "fst (update sample_lib ?s) = Some ValueError"
    by (subst update_result) (simp only: low sum.case fst_conv)
  have f: "line_filtered (snd (update sample_lib ?s)) = line_filtered cutoff_50"
    by (subst update_line_filtered, simp only: low sum.case, simp)
  have h: "harmonic (snd (update sample_lib ?s)) =
      calculate_harmonic (initial_params\<lparr>amplitude := 2, cutoff_frequency := 50\<rparr>)"
    using st p0 by (simp only: update_harmonic if_True)
  have old: "ydata (line_clean cutoff_50) = calculate_harmonic initial_params"
    by (simp add: cutoff_50_def set_val_def update_line_clean update_harmonic
        harmonic_stale_def startup_fields)
  have new: "ydata (line_clean (snd (update sample_lib ?s))) =
      calculate_harmonic (initial_params\<lparr>amplitude := 2, cutoff_frequency := 50\<rparr>)"
    unfolding update_line_clean h by simp
  have a: "amplitude (params (snd (update sample_lib ?s))) = 2"
    by (simp add: update_params)
  from r f old new a harmonic_amplitude_2_differs show ?thesis
    by (simp add: set_val_def cutoff_50_fields)
qed

text \<open>
  Claim C7, as the code has it. Nothing is validated. Whatever value a slider of a
  reachable object is set to, inside its range or not, the slider holds it and
  \<open>_update\<close> runs as for any other value: the parameter the slider feeds holds the
  value, the six numeric parameters are the sliders' values, the harmonic is the one of
  the new parameters, the noise is drawn anew if a noise parameter changed, the noisy
  and the clean line are given the new signals, and the filter runs on the new noisy
  signal with the new cut-off. Its result becomes the filtered line and a redraw is
  requested; or it raises, the call raises with it, and the filtered line is as before.
\<close>

theorem no_validation:
  assumes "reachable L self"
  shows "val (get_slider f (snd (set_val L f v self))) = v \<and>
     param_of f (params (snd (set_val L f v self))) = v \<and>
     params (snd (set_val L f v self)) =
       dict_update (params self) (read_sliders (snd (set_val L f v self))) \<and>
     harmonic (snd (set_val L f v self)) = calculate_harmonic (params (snd (set_val L f v self))) \<and>
     noise (snd (set_val L f v self)) =
       (if noise_stale (entered f v self)
        then generate_noise L (params (snd (set_val L f v self))) (rng_draws self)
        else noise self) \<and>
     ydata (line_noisy (snd (set_val L f v self))) =
       map2 (+) (harmonic (snd (set_val L f v self))) (noise (snd (set_val L f v self))) \<and>
     ydata (line_clean (snd (set_val L f v self))) = harmonic (snd (set_val L f v self)) \<and>
     (case lowpass L (cutoff_frequency (params (snd (set_val L f v self))))
             (map2 (+) (harmonic (snd (set_val L f v self))) (noise (snd (set_val L f v self)))) of
        Inl e \<Rightarrow> fst (set_val L f v self) = Some e \<and>
                 line_filtered (snd (set_val L f v self)) = line_filtered self \<and>
                 draw_requests (snd (set_val L f v self)) = draw_requests self
      | Inr y \<Rightarrow> fst (set_val L f v self) = None \<and>
                 line_filtered (snd (set_val L f v self)) = (line_filtered self)\<lparr>ydata := y\<rparr> \<and>
                 draw_requests (snd (set_val L f v self)) = draw_requests self + 1)"
  using set_val_effect(1,2,3,4,6,8,9) [OF assms, of f v] set_val_filter [of L f v self]
  by simp

text \<open>
  The cut-off slider, whose range ends at 10, set to 50: the value is stored in the
  slider and in the parameters, and the call ends in the filter's \<open>ValueError\<close>.
\<close>

theorem no_validation_witness:
  "reachable sample_lib startup \<and> valmax (slider_cutoff startup) = 10 \<and>
   val (slider_cutoff (snd (set_val sample_lib Cutoff 50 startup))) = 50 \<and>
   cutoff_frequency (params (snd (set_val sample_lib Cutoff 50 startup))) = 50 \<and>
   fst (set_val sample_lib Cutoff 50 startup) = Some ValueError \<and>
   line_filtered (snd (set_val sample_lib Cutoff 50 startup)) = line_filtered startup"
proof -
  let ?s = "snd (set_val sample_lib Cutoff 50 startup)"
  note nv = no_validation [OF reachable_startup, of Cutoff 50]
  from nv have 1: "val (slider_cutoff ?s) = 50" and 2: "cutoff_frequency (params ?s) = 50"
    by simp_all
  from nv have 3: "case lowpass sample_lib (cutoff_frequency (params ?s))
             (map2 (+) (harmonic ?s) (noise ?s)) of
        Inl e \<Rightarrow> fst (set_val sample_lib Cutoff 50 startup) = Some e \<and>
                 line_filtered ?s = line_filtered startup \<and>
                 draw_requests ?s = draw_requests startup
      | Inr y \<Rightarrow> fst (set_val sample_lib Cutoff 50 startup) = None \<and>
                 line_filtered ?s = (line_filtered startup)\<lparr>ydata := y\<rparr> \<and>
                 draw_requests ?s = draw_requests startup + 1"
    by blast
  from 3 have "fst (set_val sample_lib Cutoff 50 startup) = Some ValueError \<and>
      line_filtered ?s = line_filtered startup"
    unfolding 2 by (simp add: lowpass_sample)
  with 1 2 reachable_startup show ?thesis
    by (simp add: startup_fields)
qed

text \<open>
  The claim as stated fails: the amplitude slider's range is \<open>[0.1, 2.0]\<close>, and the
  value 5 is not rejected; the call returns normally, the amplitude parameter is 5 and
  the harmonic is recomputed with it.
\<close>

theorem out_of_domain_accepted:
  "valmin (slider_amp startup) = 0.1 \<and> valmax (slider_amp startup) = 2 \<and>
   amplitude (params startup) = 1 \<and>
   fst (set_val sample_lib Amp 5 startup) = None \<and>
   amplitude (params (snd (set_val sample_lib Amp 5 startup))) = 5 \<and>
   harmonic (snd (set_val sample_lib Amp 5 startup)) =
     calculate_harmonic (initial_params\<lparr>amplitude := 5\<rparr>)"
proof -
  let ?s = "put_slider Amp ((get_slider Amp startup)\<lparr>val := 5\<rparr>) startup"
  have st: "harmonic_stale ?s"
    by (simp add: harmonic_stale_def startup_fields)
  have p0: "dict_update (params ?s) (read_sliders ?s) = initial_params\<lparr>amplitude := 5\<rparr>"
    by (simp add: startup_fields dict_update_def read_sliders_def initial_params_def)
  then have p: "params (snd (update sample_lib ?s)) = initial_params\<lparr>amplitude := 5\<rparr>"
    by (simp only: update_params)
  have "fst (update sample_lib ?s) = None"
    by (subst update_result) (simp add: lowpass_sample startup_fields)
  moreover have "harmonic (snd (update sample_lib ?s)) = calculate_harmonic (initial_params\<lparr>amplitude := 5\<rparr>)"
    using st p0 by (simp only: update_harmonic if_True)
  ultimately show ?thesis
    using p by (simp add: set_val_def startup_fields)
qed

text \<open>
  Claim C8. \<open>_toggle_noise\<close> flips \<open>show_noise\<close>, shows the noisy line exactly when
  the new flag is set and the clean line exactly when it is not, and requests a redraw.
  The harmonic, the noise, the generator position, the data of all three lines and the
  six numeric parameters are as before: nothing is recomputed.
\<close>

theorem toggle_noise_frame:
  "harmonic (toggle_noise self) = harmonic self \<and>
   noise (toggle_noise self) = noise self \<and>
   rng_draws (toggle_noise self) = rng_draws self \<and>
   line_filtered (toggle_noise self) = line_filtered self \<and>
   ydata (line_noisy (toggle_noise self)) = ydata (line_noisy self) \<and>
   ydata (line_clean (toggle_noise self)) = ydata (line_clean self) \<and>
   params (toggle_noise self) = (params self)\<lparr>show_noise := \<not> show_noise (params self)\<rparr> \<and>
   visible (line_noisy (toggle_noise self)) = (\<not> show_noise (params self)) \<and>
   visible (line_clean (toggle_noise self)) = show_noise (params self) \<and>
   draw_requests (toggle_noise self) = draw_requests self + 1"
  by (simp add: toggle_noise_def Let_def)

text \<open>
  At the startup object, where the flag is set.
\<close>

theorem toggle_noise_frame_witness:
  "harmonic (toggle_noise startup) = calculate_harmonic initial_params \<and>
   rng_draws (toggle_noise startup) = 1 \<and>
   \<not> show_noise (params (toggle_noise startup)) \<and>
   \<not> visible (line_noisy (toggle_noise startup)) \<and>
   visible (line_clean (toggle_noise startup))"
  using toggle_noise_frame [of startup]
  by (simp add: startup_fields)

text \<open>
  Claim C9, as the code has it. \<open>_reset\<close> resets the six sliders only. From a
  reachable object, when it returns normally the six numeric parameters are the
  defaults, \<open>show_noise\<close> is what it was before, the harmonic is the one of the startup
  object, and the number of redraws requested, one by each call of \<open>_update\<close>, is the
  number of sliders that were not at their initial value: \<open>_update\<close> runs once for each
  of these and for no other slider.
\<close>

theorem reset_restores_sliders:
  assumes "reachable L self" and "reset L self = (None, self')" and "init L = Inr start"
  shows "params self' = initial_params\<lparr>show_noise := show_noise (params self)\<rparr> \<and>
     harmonic self' = harmonic start \<and>
     draw_requests self' =
       draw_requests self +
       length (filter (\<lambda>g. val (get_slider g self) \<noteq> valinit (get_slider g self))
                 [Amp, Freq, Phase, NoiseMean, NoiseCov, Cutoff])"
proof -
  let ?all = "[Amp, Freq, Phase, NoiseMean, NoiseCov, Cutoff]"
  from assms(1) have inv: "invariant self"
    by (rule reachable_invariant)
  from assms(2) have res: "resets L ?all self = (None, self')"
    by (simp only: reset_def)
  then have self': "self' = snd (resets L ?all self)"
    by simp
  from inv have inv': "invariant self'"
    unfolding self' by (rule resets_invariant)
  have at: "val (get_slider g self') = param_of g initial_params" for g
  proof -
    have "g \<in> set ?all" by (cases g) simp_all
    then have "val (get_slider g self') = valinit (get_slider g self')"
      using resets_at_valinit [OF res] by blast
    also have "\<dots> = valinit (get_slider g self)"
      unfolding self' by (rule resets_valinit)
    also from inv have "\<dots> = param_of g initial_params"
      by (simp add: invariant_def valinit_defaults_all)
    finally show ?thesis .
  qed
  from inv' have "param_of g (params self') = val (get_slider g self')" for g
    by (simp add: invariant_def synced_all)
  with at have eq: "param_of g (params self') = param_of g initial_params" for g
    by simp
  have sn: "show_noise (params self') = show_noise (params self)"
    unfolding self' by (rule resets_show_noise)
  have p: "params self' = initial_params\<lparr>show_noise := show_noise (params self)\<rparr>"
    using eq [of Amp] eq [of Freq] eq [of Phase] eq [of NoiseMean] eq [of NoiseCov]
      eq [of Cutoff] sn
    by (intro param_dict.equality) simp_all
  from inv' have "harmonic self' = calculate_harmonic (params self')"
    by (simp add: invariant_def harmonic_fresh_def)
  also have "\<dots> = calculate_harmonic initial_params"
    by (rule calculate_harmonic_cong) (simp_all add: p)
  also from assms(3) have "\<dots> = harmonic start"
    by (simp add: first_update_harmonic)
  finally have h: "harmonic self' = harmonic start" .
  have "distinct ?all" by simp
  then have "draw_requests self' =
       draw_requests self +
       length (filter (\<lambda>g. val (get_slider g self) \<noteq> valinit (get_slider g self)) ?all)"
    using res by (rule resets_draw_requests)
  with p h show ?thesis by simp
qed

text \<open>
  After the amplitude was set to 2: the reset returns normally, the parameters are the
  initial ones (the flag was never toggled), and one redraw was requested, for the one
  slider that had moved.
\<close>

theorem reset_restores_sliders_witness:
  "reachable sample_lib amp_2 \<and> amplitude (params amp_2) = 2 \<and>
   fst (reset sample_lib amp_2) = None \<and>
   params (snd (reset sample_lib amp_2)) = initial_params \<and>
   harmonic (snd (reset sample_lib amp_2)) = harmonic startup \<and>
   draw_requests (snd (reset sample_lib amp_2)) = draw_requests amp_2 + 1"
proof -
  have a: "amplitude (params amp_2) = 2"
    by (simp add: amp_2_def set_val_def update_params)
  have sn: "show_noise (params amp_2)"
    by (simp add: amp_2_def set_val_show_noise startup_fields)
  have n: "length (filter (\<lambda>g. val (get_slider g amp_2) \<noteq> valinit (get_slider g amp_2))
                 [Amp, Freq, Phase, NoiseMean, NoiseCov, Cutoff]) = 1"
    by (simp add: amp_2_slider startup_fields)
  from reset_restores_sliders [OF reachable_amp_2 reset_amp_2 init_sample] a sn reachable_amp_2
  show ?thesis
    unfolding n by (simp add: reset_amp_2 initial_params_def)
qed

text \<open>
  The claim as stated fails: after the check box was clicked once, the flag is off and
  the reset leaves it off, although its default is on; and since every slider is at its
  initial value, the reset calls \<open>_update\<close> for none of them and returns the object
  unchanged.
\<close>

theorem reset_keeps_show_noise:
  "show_noise initial_params \<and>
   \<not> show_noise (params (snd (reset sample_lib (toggle_noise startup)))) \<and>
   reset sample_lib (toggle_noise startup) = (None, toggle_noise startup)"
proof -
  have "reset sample_lib (toggle_noise startup) = (None, toggle_noise startup)"
    unfolding reset_def
    by (rule resets_noop) (simp add: toggle_noise_def Let_def startup_fields)
  then show ?thesis
    by (simp add: toggle_noise_def Let_def startup_fields)
qed

text \<open>
  Claim C10. The sample rate computed from the time base is 99.9 and the Nyquist
  frequency 49.95, so a cut-off within \<open>[0.1, 10.0]\<close> has a normalized cut-off strictly
  between 0 and 1; a \<open>butter\<close> that accepts such values then returns coefficients, and
  \<open>_update_filter\<close> goes on to \<open>filtfilt\<close>: the branch in which the design raises is not
  taken.
\<close>

theorem cutoff_below_nyquist:
  assumes "0.1 \<le> c" and "c \<le> 10"
  shows "1 / (t ! 1 - t ! 0) = 99.9 \<and> nyquist = 49.95 \<and>
     0 < c / nyquist \<and> c / nyquist < 1 \<and>
     (butter_accepts L \<and> cutoff_frequency (params self) = c \<longrightarrow>
        (\<exists>b a. butter L 5 (c / nyquist) = Inr (b, a) \<and>
           update_filter L self x =
             (case filtfilt L b a x of
                Inl e \<Rightarrow> Inl e
              | Inr y \<Rightarrow> Inr (self\<lparr>line_filtered := (line_filtered self)\<lparr>ydata := y\<rparr>\<rparr>))))"
proof -
  have fs: "1 / (t ! 1 - t ! 0) = 99.9"
    by (simp add: nth_t)
  have ny: "nyquist = 49.95"
    by (simp add: nyquist_value)
  from assms have pos: "0 < c / nyquist" and lt: "c / nyquist < 1"
    by (simp_all add: nyquist_value)
  have "\<exists>b a. butter L 5 (c / nyquist) = Inr (b, a) \<and>
           update_filter L self x =
             (case filtfilt L b a x of
                Inl e \<Rightarrow> Inl e
              | Inr y \<Rightarrow> Inr (self\<lparr>line_filtered := (line_filtered self)\<lparr>ydata := y\<rparr>\<rparr>))"
    if acc: "butter_accepts L" and c: "cutoff_frequency (params self) = c"
  proof -
    from acc pos lt obtain b a where ba: "butter L 5 (c / nyquist) = Inr (b, a)"
      unfolding butter_accepts_def by blast
    then have "update_filter L self x =
             (case filtfilt L b a x of
                Inl e \<Rightarrow> Inl e
              | Inr y \<Rightarrow> Inr (self\<lparr>line_filtered := (line_filtered self)\<lparr>ydata := y\<rparr>\<rparr>))"
      by (simp add: update_filter_lowpass lowpass_def c)
    with ba show ?thesis by blast
  qed
  with fs ny pos lt show ?thesis by blast
qed

text \<open>
  At the upper end of the range, the cut-off 10.
\<close>

theorem cutoff_below_nyquist_witness:
  "(0.1::real) \<le> 10 \<and> (10::real) / nyquist < 1 \<and> butter_accepts sample_lib \<and>
   cutoff_frequency (params (snd (set_val sample_lib Cutoff 10 startup))) = 10 \<and>
   update_filter sample_lib (snd (set_val sample_lib Cutoff 10 startup)) [0] =
     Inr ((snd (set_val sample_lib Cutoff 10 startup))
            \<lparr>line_filtered := (line_filtered (snd (set_val sample_lib Cutoff 10 startup)))\<lparr>ydata := [0]\<rparr>\<rparr>)"
proof -
  let ?s = "snd (set_val sample_lib Cutoff 10 startup)"
  have c: "cutoff_frequency (params ?s) = 10"
    by (simp add: set_val_def update_params)
  have b: "butter sample_lib 5 (10 / nyquist) = Inr ([10 / nyquist], [1])"
    by (simp add: sample_lib_def nyquist_value)
  from cutoff_below_nyquist [of 10 sample_lib ?s "[0]"] c sample_contract(2)
  obtain b a where "butter sample_lib 5 (10 / nyquist) = Inr (b, a)"
    and u: "update_filter sample_lib ?s [0] =
             (case filtfilt sample_lib b a [0] of
                Inl e \<Rightarrow> Inl e
              | Inr y \<Rightarrow> Inr (?s\<lparr>line_filtered := (line_filtered ?s)\<lparr>ydata := y\<rparr>\<rparr>))"
    by auto
  from u have "update_filter sample_lib ?s [0] =
      Inr (?s\<lparr>line_filtered := (line_filtered ?s)\<lparr>ydata := [0]\<rparr>\<rparr>)"
    by (simp add: sample_lib_def)
  with cutoff_below_nyquist [of 10 sample_lib ?s "[0]"] c sample_contract(2) show ?thesis
    by simp
qed

end
